theory Spec2Isabelle
  imports Complex_Main "HOL-Library.Word" "HOL-Library.Sublist"
begin

section \<open>The state of the App component (src/App.tsx)\<close>

text \<open>
  The component keeps React state (\<open>isActive\<close>, \<open>isSyncing\<close>, \<open>transcription\<close>,
  \<open>history\<close>) and refs (\<open>audioContexts\<close>, \<open>liveSession\<close>, \<open>nextStartTime\<close>,
  \<open>sources\<close>, \<open>transcriptionRef\<close>). All of it is one record that every handler takes
  and returns. JavaScript numbers (times in seconds, durations, samples) are doubles;
  their values are modelled as \<open>real\<close>. Comparing and taking the maximum are exact on
  doubles. Adding is not, so where a property depends on a sum the addition is an
  argument of the model and the property is proved for every addition. The DOM ref
  \<open>transcriptRef\<close> and the scrolling effect are presentation and are left out.
\<close>

datatype role = User | Ai

text \<open>One committed entry \<^verbatim>\<open>{text, role}\<close> of \<open>history\<close>.\<close>

record entry =
  entry_text :: string
  entry_role :: role

text \<open>The shape \<^verbatim>\<open>{user: string, ai: string}\<close> of \<open>transcription\<close> and \<open>transcriptionRef\<close>.\<close>

record transcript =
  user :: string
  ai :: string

text \<open>
  An \<open>AudioBufferSourceNode\<close> as the scheduler sees it: the duration of its buffer and
  the time passed to \<^verbatim>\<open>source.start\<close>.
\<close>

record source_node =
  buffer_duration :: real
  start_at :: real

text \<open>The pair of audio contexts, each with the sample rate it was created with.\<close>

record audio_contexts =
  input_sampleRate :: nat
  output_sampleRate :: nat

text \<open>A remote session handle is only ever stored, closed and dropped.\<close>

type_synonym session = nat

text \<open>
  \<open>sources\<close> is a JavaScript \<open>Set\<close> of node objects. Every node added is a fresh
  object, so the set is a list in insertion order; two nodes with equal fields stay two
  elements, as two objects do. \<open>closeLog\<close> and \<open>stopLog\<close> record the calls
  \<^verbatim>\<open>liveSession.current.close()\<close> and \<^verbatim>\<open>s.stop()\<close>, whose effect lies
  outside the component.
\<close>

record app =
  isActive :: bool
  isSyncing :: bool
  transcription :: transcript
  history :: "entry list"
  audioContexts :: "audio_contexts option"
  liveSession :: "session option"
  nextStartTime :: real
  sources :: "source_node list"
  transcriptionRef :: transcript
  closeLog :: "session list"
  stopLog :: "source_node list"

definition empty_transcript :: transcript where
  "empty_transcript = \<lparr>user = '''', ai = ''''\<rparr>"

text \<open>The initial values of \<^verbatim>\<open>useState\<close> and \<^verbatim>\<open>useRef\<close> (lines 9 to 19).\<close>

definition app_init :: app where
  "app_init =
     \<lparr>isActive = False, isSyncing = False, transcription = empty_transcript,
      history = [], audioContexts = None, liveSession = None, nextStartTime = 0,
      sources = [], transcriptionRef = empty_transcript, closeLog = [], stopLog = []\<rparr>"

section \<open>Session control\<close>

text \<open>
  \<^verbatim>\<open>sources.current.forEach(s => { try { s.stop(); } catch (e) {} })\<close>: every node
  is stopped, an exception of \<open>stop\<close> is swallowed, the set is not changed.
\<close>

definition stop_sources :: "app \<Rightarrow> app" where
  "stop_sources s = s\<lparr>stopLog := stopLog s @ sources s\<rparr>"

text \<open>\<open>stopSession\<close>, lines 27 to 41, statement by statement.\<close>

definition stopSession :: "app \<Rightarrow> app" where
  "stopSession s =
     (let s1 = s\<lparr>isActive := False\<rparr>;
          s2 = s1\<lparr>isSyncing := False\<rparr>;
          s3 = (case liveSession s2 of
                  None \<Rightarrow> s2
                | Some h \<Rightarrow> s2\<lparr>closeLog := closeLog s2 @ [h], liveSession := None\<rparr>);
          s4 = stop_sources s3;
          s5 = s4\<lparr>sources := []\<rparr>;
          s6 = s5\<lparr>nextStartTime := 0\<rparr>;
          s7 = s6\<lparr>transcription := \<lparr>user = '''', ai = ''''\<rparr>\<rparr>
      in s7\<lparr>transcriptionRef := \<lparr>user = '''', ai = ''''\<rparr>\<rparr>)"

text \<open>
  \<open>startSession\<close> awaits the platform and the remote service. What they answer is an
  input of the model. An exception inside the \<^verbatim>\<open>try\<close> block lands in the
  \<^verbatim>\<open>catch\<close> block: \<open>ContextFailed\<close> when the audio contexts cannot be
  created, \<open>Rejected\<close> when a later step fails (resuming a context,
  \<^verbatim>\<open>getUserMedia\<close>, \<^verbatim>\<open>ai.live.connect\<close>). Otherwise the promise
  resolves to a session handle.
\<close>

datatype start_outcome = ContextFailed | Rejected | Connected session

definition startSession :: "start_outcome \<Rightarrow> app \<Rightarrow> app" where
  "startSession outcome s =
     (if isActive s then stopSession s
      else
        (let s1 = s\<lparr>isSyncing := True\<rparr>;
             s2 = (case audioContexts s1 of
                     None \<Rightarrow> s1\<lparr>audioContexts :=
                               Some \<lparr>input_sampleRate = 16000, output_sampleRate = 24000\<rparr>\<rparr>
                   | Some c \<Rightarrow> s1)
         in case outcome of
              ContextFailed \<Rightarrow> s1\<lparr>isSyncing := False\<rparr>
            | Rejected \<Rightarrow> s2\<lparr>isSyncing := False\<rparr>
            | Connected h \<Rightarrow> s2\<lparr>liveSession := Some h\<rparr>))"

text \<open>The callbacks \<open>onopen\<close> (state part), \<open>onerror\<close> and \<open>onclose\<close>.\<close>

definition onopen :: "app \<Rightarrow> app" where
  "onopen s = s\<lparr>isActive := True, isSyncing := False\<rparr>"

definition onerror :: "app \<Rightarrow> app" where
  "onerror s = stopSession s"

definition onclose :: "app \<Rightarrow> app" where
  "onclose s = s\<lparr>isActive := False, isSyncing := False\<rparr>"

section \<open>The capture callback: float samples to 16-bit PCM\<close>

text \<open>
  \<^verbatim>\<open>int16[i] = inputData[i] * 32768\<close> stores a number into an \<open>Int16Array\<close>. The
  store applies ECMAScript's \<open>ToInt16\<close>: the number is truncated towards zero and then
  reduced modulo \<open>2^16\<close> into the signed range. A sample is a 32-bit float and 32768 is a
  power of two, so the product is exact and the real number models it without rounding.
\<close>

definition js_truncate :: "real \<Rightarrow> int" where
  "js_truncate x = (if x < 0 then - \<lfloor>- x\<rfloor> else \<lfloor>x\<rfloor>)"

definition ToInt16 :: "real \<Rightarrow> 16 word" where
  "ToInt16 x = word_of_int (js_truncate x)"

text \<open>
  The loop \<^verbatim>\<open>for (let i = 0; i < l; i++) int16[i] = inputData[i] * 32768\<close> over
  the array \<^verbatim>\<open>new Int16Array(l)\<close>, which starts filled with zeros.
\<close>

function onaudioprocess_loop :: "real list \<Rightarrow> nat \<Rightarrow> 16 word list \<Rightarrow> 16 word list" where
  "onaudioprocess_loop inputData i int16 =
     (if i < length inputData
      then onaudioprocess_loop inputData (Suc i) (int16[i := ToInt16 (inputData ! i * 32768)])
      else int16)"
  by pat_completeness auto
termination
  by (relation "measure (\<lambda>(inputData, i, int16). length inputData - i)") auto

declare onaudioprocess_loop.simps [simp del]

definition onaudioprocess :: "real list \<Rightarrow> 16 word list" where
  "onaudioprocess inputData =
     onaudioprocess_loop inputData 0 (replicate (length inputData) 0)"

section \<open>The message callback\<close>

text \<open>
  A part of a model turn. \<open>clock\<close> is the value of \<^verbatim>\<open>outCtx.currentTime\<close> that the
  loop reads when it reaches the part; \<open>inlineData\<close> is \<open>None\<close> for a part without
  audio data and otherwise the duration of the \<open>AudioBuffer\<close> that
  \<^verbatim>\<open>decodeAudioData(decode(...))\<close> returns for it (both functions live in
  \<^verbatim>\<open>services/geminiService\<close> and the handler uses nothing else of the buffer).
\<close>

record part =
  clock :: real
  inlineData :: "real option"

record message =
  parts :: "part list option"
  inputTranscription :: "string option"
  outputTranscription :: "string option"
  turnComplete :: bool
  interrupted :: bool

subsection \<open>Audio parts (lines 102 to 113)\<close>

text \<open>
  The statement before the \<^verbatim>\<open>await\<close>: the cursor is clamped to the output clock.
\<close>

definition audio_part_before_decode :: "real \<Rightarrow> app \<Rightarrow> app" where
  "audio_part_before_decode currentTime s =
     s\<lparr>nextStartTime := max (nextStartTime s) currentTime\<rparr>"

text \<open>
  The continuation after the \<^verbatim>\<open>await\<close>: a node is created for the decoded buffer,
  started at the cursor as it is now, the cursor advances by the buffer's duration and the
  node joins \<open>sources\<close>. The statement \<^verbatim>\<open>nextStartTime.current += audioBuffer.duration\<close>
  adds two doubles and rounds the sum. \<open>audio_part_after_decode_with\<close> takes the addition
  as an argument, so that what is proved of it for every addition holds of the addition
  of doubles. \<open>audio_part_after_decode\<close> is its instance at the exact sum: it is the
  code's result whenever the exact sum is a double, as it is for the values of the
  examples below.
\<close>

definition audio_part_after_decode_with ::
    "(real \<Rightarrow> real \<Rightarrow> real) \<Rightarrow> real \<Rightarrow> app \<Rightarrow> app" where
  "audio_part_after_decode_with add duration s =
     (let source = \<lparr>buffer_duration = duration, start_at = nextStartTime s\<rparr>;
          s1 = s\<lparr>nextStartTime := add (nextStartTime s) duration\<rparr>
      in s1\<lparr>sources := sources s1 @ [source]\<rparr>)"

definition audio_part_after_decode :: "real \<Rightarrow> app \<Rightarrow> app" where
  "audio_part_after_decode duration s =
     (let source = \<lparr>buffer_duration = duration, start_at = nextStartTime s\<rparr>;
          s1 = s\<lparr>nextStartTime := nextStartTime s + duration\<rparr>
      in s1\<lparr>sources := sources s1 @ [source]\<rparr>)"

text \<open>
  One audio part handled with nothing in between: the clamp, then the continuation. The
  handler is suspended at the \<^verbatim>\<open>await\<close>, and another handler, an interruption or
  \<open>stopSession\<close> can run before the continuation; such runs are sequences of the two
  halves and the other operations (\<open>sched_run\<close> below).
\<close>

definition onmessage_audio_part :: "real \<Rightarrow> real \<Rightarrow> app \<Rightarrow> app" where
  "onmessage_audio_part currentTime duration s =
     audio_part_after_decode duration (audio_part_before_decode currentTime s)"

definition onmessage_part :: "part \<Rightarrow> app \<Rightarrow> app" where
  "onmessage_part p s =
     (case inlineData p of
        None \<Rightarrow> s
      | Some duration \<Rightarrow> onmessage_audio_part (clock p) duration s)"

text \<open>
  The listener \<^verbatim>\<open>'ended'\<close> of a node deletes that node object from \<open>sources\<close>. A
  node that is in the set is named by its position \<open>i\<close>; the listener of a node that is
  no longer in the set (a position out of range) leaves the set as it is.
\<close>

definition source_ended :: "nat \<Rightarrow> app \<Rightarrow> app" where
  "source_ended i s =
     (if i < length (sources s)
      then s\<lparr>sources := take i (sources s) @ drop (Suc i) (sources s)\<rparr>
      else s)"

subsection \<open>Transcription fragments (lines 117 to 126)\<close>

definition onmessage_inputTranscription :: "string \<Rightarrow> app \<Rightarrow> app" where
  "onmessage_inputTranscription txt s =
     (let s1 = s\<lparr>transcriptionRef :=
                  (transcriptionRef s)\<lparr>user := user (transcriptionRef s) @ txt\<rparr>\<rparr>
      in s1\<lparr>transcription :=
              (transcription s1)\<lparr>user := user (transcription s1) @ txt\<rparr>\<rparr>)"

definition onmessage_outputTranscription :: "string \<Rightarrow> app \<Rightarrow> app" where
  "onmessage_outputTranscription txt s =
     (let s1 = s\<lparr>transcriptionRef :=
                  (transcriptionRef s)\<lparr>ai := ai (transcriptionRef s) @ txt\<rparr>\<rparr>
      in s1\<lparr>transcription := \<lparr>user = '''', ai = ai (transcriptionRef s1)\<rparr>\<rparr>)"

subsection \<open>Turn completion (lines 128 to 141)\<close>

text \<open>
  \<^verbatim>\<open>xs.slice(-2)\<close>: the elements from index \<open>max (length - 2) 0\<close> on. Subtraction
  on \<open>nat\<close> stops at 0, which is that maximum.
\<close>

definition slice_last2 :: "'a list \<Rightarrow> 'a list" where
  "slice_last2 xs = drop (length xs - 2) xs"

text \<open>
  The array \<open>newEntries\<close> built inside the updater: a string is truthy when it is not
  empty.
\<close>

definition newEntries :: "transcript \<Rightarrow> entry list" where
  "newEntries t =
     (let e0 = [];
          e1 = (if user t \<noteq> '''' then e0 @ [\<lparr>entry_text = user t, entry_role = User\<rparr>] else e0);
          e2 = (if ai t \<noteq> '''' then e1 @ [\<lparr>entry_text = ai t, entry_role = Ai\<rparr>] else e1)
      in e2)"

text \<open>
  The branch hands \<open>setHistory\<close> an updater, then clears the live display and the
  accumulators. React queues an updater and runs it at the next render, after the branch
  has returned, so the updater reads \<^verbatim>\<open>transcriptionRef.current\<close> as lines 139 and
  140 left it. The render follows the branch: the state after both is the result.
\<close>

definition onmessage_turnComplete :: "app \<Rightarrow> app" where
  "onmessage_turnComplete s =
     (let s1 = s\<lparr>transcription := \<lparr>user = '''', ai = ''''\<rparr>\<rparr>;
          s2 = s1\<lparr>transcriptionRef := \<lparr>user = '''', ai = ''''\<rparr>\<rparr>
      in s2\<lparr>history := slice_last2 (history s2 @ newEntries (transcriptionRef s2))\<rparr>)"

text \<open>
  The \<open>commitTurn\<close> of the specification, in its words: for each non-empty buffer an
  entry is appended, the user's first, the history is truncated to its last two entries,
  and then both accumulators are cleared. It is what the branch would do if the updater
  ran at the call.
\<close>

definition commitTurn_spec :: "app \<Rightarrow> app" where
  "commitTurn_spec s =
     (let s1 = s\<lparr>history := slice_last2 (history s @ newEntries (transcriptionRef s))\<rparr>;
          s2 = s1\<lparr>transcription := \<lparr>user = '''', ai = ''''\<rparr>\<rparr>
      in s2\<lparr>transcriptionRef := \<lparr>user = '''', ai = ''''\<rparr>\<rparr>)"

subsection \<open>Interruption (lines 143 to 147)\<close>

definition onmessage_interrupted :: "app \<Rightarrow> app" where
  "onmessage_interrupted s =
     (let s1 = stop_sources s;
          s2 = s1\<lparr>sources := []\<rparr>
      in s2\<lparr>nextStartTime := 0\<rparr>)"

subsection \<open>The whole callback\<close>

definition onmessage_parts :: "part list \<Rightarrow> app \<Rightarrow> app" where
  "onmessage_parts ps s = fold onmessage_part ps s"

definition onmessage :: "message \<Rightarrow> app \<Rightarrow> app" where
  "onmessage m s =
     (let s1 = (case parts m of None \<Rightarrow> s | Some ps \<Rightarrow> onmessage_parts ps s);
          s2 = (case inputTranscription m of
                  None \<Rightarrow> s1 | Some txt \<Rightarrow> onmessage_inputTranscription txt s1);
          s3 = (case outputTranscription m of
                  None \<Rightarrow> s2 | Some txt \<Rightarrow> onmessage_outputTranscription txt s2);
          s4 = (if turnComplete m then onmessage_turnComplete s3 else s3)
      in if interrupted m then onmessage_interrupted s4 else s4)"

section \<open>Runs of the component\<close>

text \<open>
  Everything that can happen to the component: a click on the orb (\<open>startSession\<close> with
  what the platform answers), the callbacks of the remote session, and a node that ends.
\<close>

datatype event =
  Click start_outcome
  | Open
  | Message message
  | Error
  | Close
  | Ended nat

fun step :: "event \<Rightarrow> app \<Rightarrow> app" where
  "step (Click outcome) s = startSession outcome s"
| "step Open s = onopen s"
| "step (Message m) s = onmessage m s"
| "step Error s = onerror s"
| "step Close s = onclose s"
| "step (Ended i) s = source_ended i s"

definition run :: "event list \<Rightarrow> app \<Rightarrow> app" where
  "run es s = fold step es s"

subsection \<open>Runs of the scheduler\<close>

text \<open>
  What can happen to the cursor and to \<open>sources\<close>, step by step: the clamp of a part
  (with the clock reading), the continuation of a part whose decode has ended (with the
  duration of the buffer), an interruption, and \<open>stopSession\<close>. A run is any sequence
  of these, so the two halves of a part need not be neighbours. The addition of the
  cursor is an argument, as in \<open>audio_part_after_decode_with\<close>.
\<close>

datatype sched_op = Clamp real | Decoded real | Interrupt | Stop

fun sched_step :: "(real \<Rightarrow> real \<Rightarrow> real) \<Rightarrow> sched_op \<Rightarrow> app \<Rightarrow> app" where
  "sched_step add (Clamp currentTime) s = audio_part_before_decode currentTime s"
| "sched_step add (Decoded duration) s = audio_part_after_decode_with add duration s"
| "sched_step add Interrupt s = onmessage_interrupted s"
| "sched_step add Stop s = stopSession s"

definition sched_run :: "(real \<Rightarrow> real \<Rightarrow> real) \<Rightarrow> sched_op list \<Rightarrow> app \<Rightarrow> app" where
  "sched_run add ops s = fold (sched_step add) ops s"

text \<open>
  Chunks handled one after the other, each clamp directly followed by its continuation,
  and the nodes such a run adds to \<open>sources\<close>.
\<close>

definition chunk_ops :: "(real \<times> real) list \<Rightarrow> sched_op list" where
  "chunk_ops cs = concat (map (\<lambda>(currentTime, duration). [Clamp currentTime, Decoded duration]) cs)"

definition scheduled_with ::
    "(real \<Rightarrow> real \<Rightarrow> real) \<Rightarrow> (real \<times> real) list \<Rightarrow> app \<Rightarrow> source_node list" where
  "scheduled_with add cs s = drop (length (sources s)) (sources (sched_run add (chunk_ops cs) s))"

text \<open>
  A step that does not reset the cursor: a clamp, or a continuation with a duration that
  is not negative.
\<close>

fun unsplit :: "sched_op \<Rightarrow> bool" where
  "unsplit (Clamp currentTime) = True"
| "unsplit (Decoded duration) = (0 \<le> duration)"
| "unsplit Interrupt = False"
| "unsplit Stop = False"

section \<open>Inputs the properties are stated on\<close>

text \<open>
  A sequence of audio chunks in arrival order: each chunk is the clock reading at the
  moment the loop reaches it and the duration of its decoded buffer. \<open>audio_parts\<close>
  makes the parts of a model turn out of it, and \<open>scheduled\<close> is the list of nodes that
  the loop of the message callback adds to \<open>sources\<close> for them.
\<close>

definition audio_parts :: "(real \<times> real) list \<Rightarrow> part list" where
  "audio_parts cs =
     map (\<lambda>(currentTime, duration). \<lparr>clock = currentTime, inlineData = Some duration\<rparr>) cs"

definition scheduled :: "(real \<times> real) list \<Rightarrow> app \<Rightarrow> source_node list" where
  "scheduled cs s = drop (length (sources s)) (sources (onmessage_parts (audio_parts cs) s))"

text \<open>
  A sequence of transcription fragments, each handled by its branch of the message
  callback.
\<close>

datatype fragment = InputFragment string | OutputFragment string

fun onmessage_fragment :: "fragment \<Rightarrow> app \<Rightarrow> app" where
  "onmessage_fragment (InputFragment txt) s = onmessage_inputTranscription txt s"
| "onmessage_fragment (OutputFragment txt) s = onmessage_outputTranscription txt s"

definition onmessage_fragments :: "fragment list \<Rightarrow> app \<Rightarrow> app" where
  "onmessage_fragments fs s = fold onmessage_fragment fs s"

text \<open>
  A session in progress: the orb is clicked, the remote session opens, and one message
  brings three seconds of audio (read at clock 4) and the user's words.
\<close>

definition close_example :: app where
  "close_example =
     run [Click (Connected 1), Open,
          Message \<lparr>parts = Some [\<lparr>clock = 4, inlineData = Some 3\<rparr>],
                   inputTranscription = Some ''hi'', outputTranscription = None,
                   turnComplete = False, interrupted = False\<rparr>] app_init"

subsection \<open>Auxiliary notions of the proofs\<close>

text \<open>
  The nodes that a cursor value \<open>c\<close> and a sequence of chunks lead to, in closed form;
  \<open>sources_chunk_ops\<close> below proves that the run computes exactly these.
\<close>

fun chain_with ::
    "(real \<Rightarrow> real \<Rightarrow> real) \<Rightarrow> real \<Rightarrow> (real \<times> real) list \<Rightarrow> source_node list" where
  "chain_with add c [] = []"
| "chain_with add c ((t, d) # cs) =
     \<lparr>buffer_duration = d, start_at = max c t\<rparr> # chain_with add (add (max c t) d) cs"

text \<open>
  What the live display keeps of the accumulators: the model text, and an end piece of
  the user text.
\<close>

definition display_inv :: "app \<Rightarrow> bool" where
  "display_inv s \<longleftrightarrow>
     ai (transcription s) = ai (transcriptionRef s)
     \<and> suffix (user (transcription s)) (user (transcriptionRef s))"

section \<open>The capture callback: properties\<close>

lemma onaudioprocess_loop_map:
  "length int16 = length inputData \<Longrightarrow> i \<le> length inputData \<Longrightarrow>
   onaudioprocess_loop inputData i int16 =
     take i int16 @ map (\<lambda>x. ToInt16 (x * 32768)) (drop i inputData)"
proof (induction inputData i int16 rule: onaudioprocess_loop.induct)
  case (1 inputData i int16)
  show ?case
  proof (cases "i < length inputData")
    case True
    let ?v = "ToInt16 (inputData ! i * 32768)"
    have "onaudioprocess_loop inputData i int16 =
        onaudioprocess_loop inputData (Suc i) (int16[i := ?v])"
      using True by (subst onaudioprocess_loop.simps) simp
    also have "\<dots> = take (Suc i) (int16[i := ?v]) @
        map (\<lambda>x. ToInt16 (x * 32768)) (drop (Suc i) inputData)"
      using True "1.prems" by (intro "1.IH") simp_all
    also have "take (Suc i) (int16[i := ?v]) = take i int16 @ [?v]"
      using True "1.prems" by (simp add: take_Suc_conv_app_nth)
    also have "(take i int16 @ [?v]) @ map (\<lambda>x. ToInt16 (x * 32768)) (drop (Suc i) inputData) =
        take i int16 @ map (\<lambda>x. ToInt16 (x * 32768)) (drop i inputData)"
      using True by (simp add: Cons_nth_drop_Suc [symmetric])
    finally show ?thesis .
  next
    case False
    with "1.prems" show ?thesis
      by (subst onaudioprocess_loop.simps) simp
  qed
qed

lemma onaudioprocess_map:
  "onaudioprocess inputData = map (\<lambda>x. ToInt16 (x * 32768)) inputData"
  by (simp add: onaudioprocess_def onaudioprocess_loop_map)

lemma js_truncate_scaled_bounds:
  assumes "- 1 \<le> x" and "x < 1"
  shows "- 32768 \<le> js_truncate (x * 32768) \<and> js_truncate (x * 32768) \<le> 32767"
proof -
  define y where "y = x * 32768"
  have lo: "- 32768 \<le> y" and hi: "y < 32768"
    using assms by (simp_all add: y_def)
  have "- 32768 \<le> js_truncate y \<and> js_truncate y \<le> 32767"
  proof (cases "y < 0")
    case True
    have "\<lfloor>- y\<rfloor> \<le> 32768"
      using lo by (simp add: floor_le_iff)
    moreover have "0 \<le> \<lfloor>- y\<rfloor>"
      using True by simp
    moreover have "js_truncate y = - \<lfloor>- y\<rfloor>"
      using True by (simp add: js_truncate_def)
    ultimately show ?thesis by linarith
  next
    case False
    have "\<lfloor>y\<rfloor> < 32768"
      using hi by (simp add: floor_less_iff)
    moreover have "0 \<le> \<lfloor>y\<rfloor>"
      using False by simp
    moreover have "js_truncate y = \<lfloor>y\<rfloor>"
      using False by (simp add: js_truncate_def)
    ultimately show ?thesis by linarith
  qed
  then show ?thesis by (simp add: y_def)
qed

lemma sint_word16_of_int:
  "- 32768 \<le> i \<Longrightarrow> i \<le> 32767 \<Longrightarrow> sint (word_of_int i :: 16 word) = i"
  by (simp add: signed_take_bit_int_eq_self_iff sint_sbintrunc')

lemma js_truncate_floor_ceiling:
  "js_truncate y = (if y < 0 then \<lceil>y\<rceil> else \<lfloor>y\<rfloor>)"
  by (simp add: js_truncate_def ceiling_def)

lemma sint_ToInt16_scaled:
  assumes "- 1 \<le> x" and "x < 1"
  shows "sint (ToInt16 (x * 32768)) = (if x < 0 then \<lceil>x * 32768\<rceil> else \<lfloor>x * 32768\<rfloor>)"
proof -
  have "sint (ToInt16 (x * 32768)) = js_truncate (x * 32768)"
    using js_truncate_scaled_bounds [OF assms]
    by (simp add: ToInt16_def sint_word16_of_int)
  also have "\<dots> = (if x < 0 then \<lceil>x * 32768\<rceil> else \<lfloor>x * 32768\<rfloor>)"
    by (simp add: js_truncate_floor_ceiling)
  finally show ?thesis .
qed

text \<open>
  Claim C3, as the code has it. For every block of samples in \<open>[-1, 1)\<close> the capture
  callback stores, for each sample, the product \<open>sample * 32768\<close> truncated towards zero
  (the ceiling for a negative sample, the floor otherwise), not rounded to the nearest
  integer. The value lies between -32768 and 32767, so the store into the 16-bit array
  does not wrap. The conversion is a function of the sample, so equal inputs give equal
  outputs.
\<close>

theorem onaudioprocess_truncates:
  assumes "\<forall>x \<in> set inputData. - 1 \<le> x \<and> x < 1"
  shows "map sint (onaudioprocess inputData) =
           map (\<lambda>x. if x < 0 then \<lceil>x * 32768\<rceil> else \<lfloor>x * 32768\<rfloor>) inputData
         \<and> (\<forall>v \<in> set (onaudioprocess inputData). - 32768 \<le> sint v \<and> sint v \<le> 32767)"
proof
  show "map sint (onaudioprocess inputData) =
          map (\<lambda>x. if x < 0 then \<lceil>x * 32768\<rceil> else \<lfloor>x * 32768\<rfloor>) inputData"
    using assms by (simp add: onaudioprocess_map sint_ToInt16_scaled)
next
  show "\<forall>v \<in> set (onaudioprocess inputData). - 32768 \<le> sint v \<and> sint v \<le> 32767"
  proof
    fix v
    assume "v \<in> set (onaudioprocess inputData)"
    then obtain x where x: "x \<in> set inputData" and v: "v = ToInt16 (x * 32768)"
      by (auto simp: onaudioprocess_map)
    from x assms have range: "- 1 \<le> x" "x < 1"
      by auto
    have "sint v = js_truncate (x * 32768)"
      using js_truncate_scaled_bounds [OF range]
      by (simp add: v ToInt16_def sint_word16_of_int)
    then show "- 32768 \<le> sint v \<and> sint v \<le> 32767"
      using js_truncate_scaled_bounds [OF range] by simp
  qed
qed

text \<open>
  The block \<open>[3/131072, -1, -1/65536, 1/2]\<close> lies in \<open>[-1, 1)\<close>; its samples scale to
  \<open>0.75\<close>, \<open>-32768\<close>, \<open>-0.5\<close> and \<open>16384\<close> and are stored as 0, -32768, 0 and 16384.
\<close>

theorem onaudioprocess_truncates_witness:
  "list_all (\<lambda>x. - 1 \<le> x \<and> x < 1) [3 / 131072, - 1, - 1 / 65536, 1 / 2 :: real]
   \<and> map sint (onaudioprocess [3 / 131072, - 1, - 1 / 65536, 1 / 2]) = [0, - 32768, 0, 16384]"
proof -
  have h: "\<forall>x \<in> set [3 / 131072, - 1, - 1 / 65536, 1 / 2 :: real]. - 1 \<le> x \<and> x < 1"
    by simp
  show ?thesis
    using h onaudioprocess_truncates [OF h] by (simp add: ceiling_def)
qed

text \<open>
  The sample \<open>3/131072\<close> (a 32-bit float: \<open>3 * 2^-17\<close>) scales to \<open>0.75\<close>. Rounding
  gives 1; the callback stores 0.
\<close>

theorem onaudioprocess_round_counterexample:
  "map sint (onaudioprocess [3 / 131072]) \<noteq> [round (3 / 131072 * 32768 :: real)]"
  by (simp add: onaudioprocess_map ToInt16_def js_truncate_def round_def)

section \<open>Turn completion: properties\<close>

lemma slice_last2_length: "length (slice_last2 xs) \<le> 2"
  by (simp add: slice_last2_def)

lemma slice_last2_suffix: "suffix (slice_last2 xs) xs"
  by (simp add: slice_last2_def suffix_drop)

lemma history_turnComplete:
  "history (onmessage_turnComplete s) = slice_last2 (history s)"
  by (simp add: onmessage_turnComplete_def newEntries_def Let_def)

lemma history_commitTurn_spec:
  "history (commitTurn_spec s) = slice_last2 (history s @ newEntries (transcriptionRef s))"
  by (simp add: commitTurn_spec_def Let_def)

text \<open>
  Claim C4 says that the turn-complete branch appends one entry for each accumulator that
  is not empty. The branch does not: the updater runs when the accumulators are already
  cleared, so whatever they held, nothing is appended. The history is only cut to its
  last two entries (a history that ends with \<open>a, b\<close> becomes \<open>[a, b]\<close>, a shorter one
  stays as it is), and the live display and both accumulators are cleared. With user
  \<open>hi\<close> and model \<open>hello there\<close> in the accumulators and an empty history, the branch
  leaves the history empty, where the \<open>commitTurn\<close> of the specification yields the two
  entries, the user's first.
\<close>

theorem onmessage_turnComplete_appends_nothing:
  "history (onmessage_turnComplete s) = slice_last2 (history s)
   \<and> history (onmessage_turnComplete (s\<lparr>history := xs @ [a, b]\<rparr>)) = [a, b]
   \<and> history (onmessage_turnComplete (s\<lparr>history := [a]\<rparr>)) = [a]
   \<and> history (onmessage_turnComplete (s\<lparr>history := []\<rparr>)) = []
   \<and> transcriptionRef (onmessage_turnComplete s) = \<lparr>user = '''', ai = ''''\<rparr>
   \<and> transcription (onmessage_turnComplete s) = \<lparr>user = '''', ai = ''''\<rparr>
   \<and> history (onmessage_turnComplete
        (app_init\<lparr>transcriptionRef := \<lparr>user = ''hi'', ai = ''hello there''\<rparr>\<rparr>)) = []
   \<and> history (commitTurn_spec
        (app_init\<lparr>transcriptionRef := \<lparr>user = ''hi'', ai = ''hello there''\<rparr>\<rparr>)) =
      [\<lparr>entry_text = ''hi'', entry_role = User\<rparr>,
       \<lparr>entry_text = ''hello there'', entry_role = Ai\<rparr>]"
proof -
  have cleared: "transcriptionRef (onmessage_turnComplete s) = \<lparr>user = '''', ai = ''''\<rparr>
      \<and> transcription (onmessage_turnComplete s) = \<lparr>user = '''', ai = ''''\<rparr>"
    by (simp add: onmessage_turnComplete_def Let_def)
  have spec: "history (commitTurn_spec
        (app_init\<lparr>transcriptionRef := \<lparr>user = ''hi'', ai = ''hello there''\<rparr>\<rparr>)) =
      [\<lparr>entry_text = ''hi'', entry_role = User\<rparr>,
       \<lparr>entry_text = ''hello there'', entry_role = Ai\<rparr>]"
    by (simp add: history_commitTurn_spec newEntries_def slice_last2_def app_init_def)
  show ?thesis
    using cleared spec
    by (simp add: history_turnComplete slice_last2_def app_init_def)
qed

subsection \<open>The history stays short\<close>

lemma stopSession_fields:
  "stopSession s =
     s\<lparr>isActive := False, isSyncing := False, liveSession := None,
       closeLog := closeLog s @ (case liveSession s of None \<Rightarrow> [] | Some h \<Rightarrow> [h]),
       stopLog := stopLog s @ sources s, sources := [], nextStartTime := 0,
       transcription := \<lparr>user = '''', ai = ''''\<rparr>,
       transcriptionRef := \<lparr>user = '''', ai = ''''\<rparr>\<rparr>"
  by (simp add: stopSession_def stop_sources_def Let_def split: option.split)

lemma history_stopSession: "history (stopSession s) = history s"
  by (simp add: stopSession_fields)

lemma history_startSession: "history (startSession outcome s) = history s"
  by (simp add: startSession_def history_stopSession Let_def
      split: option.split start_outcome.split)

lemma history_onmessage_part: "history (onmessage_part p s) = history s"
  by (simp add: onmessage_part_def onmessage_audio_part_def audio_part_after_decode_def
      audio_part_before_decode_def Let_def split: option.split)

lemma history_onmessage_parts: "history (onmessage_parts ps s) = history s"
  unfolding onmessage_parts_def
  by (induction ps arbitrary: s) (simp_all add: history_onmessage_part)

lemma history_inputTranscription: "history (onmessage_inputTranscription txt s) = history s"
  by (simp add: onmessage_inputTranscription_def Let_def)

lemma history_outputTranscription: "history (onmessage_outputTranscription txt s) = history s"
  by (simp add: onmessage_outputTranscription_def Let_def)

lemma history_interrupted: "history (onmessage_interrupted s) = history s"
  by (simp add: onmessage_interrupted_def stop_sources_def Let_def)

lemma history_source_ended: "history (source_ended i s) = history s"
  by (simp add: source_ended_def)

lemma length_history_turnComplete: "length (history (onmessage_turnComplete s)) \<le> 2"
  by (simp add: history_turnComplete slice_last2_length)

lemma length_history_onmessage:
  "length (history s) \<le> 2 \<Longrightarrow> length (history (onmessage m s)) \<le> 2"
  by (simp add: onmessage_def Let_def history_onmessage_parts history_inputTranscription
      history_outputTranscription history_interrupted length_history_turnComplete
      split: option.split)

lemma length_history_step:
  "length (history s) \<le> 2 \<Longrightarrow> length (history (step e s)) \<le> 2"
  by (cases e)
     (simp_all add: history_startSession onopen_def onerror_def onclose_def
        history_source_ended history_stopSession length_history_onmessage)

lemma length_history_run:
  "length (history s) \<le> 2 \<Longrightarrow> length (history (run es s)) \<le> 2"
  unfolding run_def
  by (induction es arbitrary: s) (simp_all add: length_history_step)

text \<open>
  Claim C6. After every sequence of events from the initial state, turn commits among
  them, the history has at most two entries; a single commit leaves at most two entries
  from any state, for the branch as React runs it and for the \<open>commitTurn\<close> of the
  specification alike. What a commit keeps is an end piece of what was there (followed,
  in the specification's \<open>commitTurn\<close>, by the new entries), so the entries that go are
  the oldest: the branch turns a history \<open>[a, b, e]\<close> into \<open>[b, e]\<close>, and the
  specification's \<open>commitTurn\<close> turns \<open>[a, b]\<close> and one new entry into \<open>[b, new]\<close>.
\<close>

theorem history_never_exceeds_2:
  "length (history (run es app_init)) \<le> 2
   \<and> length (history (onmessage_turnComplete s)) \<le> 2
   \<and> length (history (commitTurn_spec s)) \<le> 2
   \<and> suffix (history (onmessage_turnComplete s)) (history s)
   \<and> history (onmessage_turnComplete (s\<lparr>history := [a, b, e]\<rparr>)) = [b, e]
   \<and> suffix (history (commitTurn_spec s)) (history s @ newEntries (transcriptionRef s))
   \<and> history (commitTurn_spec
        (s\<lparr>history := [a, b], transcriptionRef := \<lparr>user = c # cs, ai = ''''\<rparr>\<rparr>)) =
      [b, \<lparr>entry_text = c # cs, entry_role = User\<rparr>]"
proof -
  have "length (history app_init) \<le> 2"
    by (simp add: app_init_def)
  then have "length (history (run es app_init)) \<le> 2"
    by (rule length_history_run)
  moreover have "suffix (history (commitTurn_spec s))
      (history s @ newEntries (transcriptionRef s))"
    by (simp add: history_commitTurn_spec slice_last2_suffix)
  moreover have "history (commitTurn_spec
        (s\<lparr>history := [a, b], transcriptionRef := \<lparr>user = c # cs, ai = ''''\<rparr>\<rparr>)) =
      [b, \<lparr>entry_text = c # cs, entry_role = User\<rparr>]"
    by (simp add: history_commitTurn_spec newEntries_def slice_last2_def)
  moreover have "history (onmessage_turnComplete (s\<lparr>history := [a, b, e]\<rparr>)) = [b, e]"
    by (simp add: history_turnComplete slice_last2_def)
  ultimately show ?thesis
    by (simp add: length_history_turnComplete history_commitTurn_spec history_turnComplete
        slice_last2_length slice_last2_suffix)
qed

section \<open>Session control: properties\<close>

lemma startSession_inactive_fields:
  "\<not> isActive s \<Longrightarrow>
   history (startSession outcome s) = history s
   \<and> transcription (startSession outcome s) = transcription s
   \<and> transcriptionRef (startSession outcome s) = transcriptionRef s
   \<and> nextStartTime (startSession outcome s) = nextStartTime s
   \<and> sources (startSession outcome s) = sources s"
  by (simp add: startSession_def Let_def split: option.split start_outcome.split)

text \<open>
  Claim C8. \<open>stopSession\<close> changes the session flags, the session handle, the playing
  nodes, the cursor, the live display and the accumulators, and nothing else: the
  history is the one it was given. A click on an active session (the stop), a second
  click (the restart, whatever the platform answers) and the opening of the new session
  leave the history unchanged, both accumulators and the live display empty, and the
  cursor at 0.
\<close>

theorem stop_restart_preserves_history:
  "stopSession s =
     s\<lparr>isActive := False, isSyncing := False, liveSession := None,
       closeLog := closeLog s @ (case liveSession s of None \<Rightarrow> [] | Some h \<Rightarrow> [h]),
       stopLog := stopLog s @ sources s, sources := [], nextStartTime := 0,
       transcription := \<lparr>user = '''', ai = ''''\<rparr>,
       transcriptionRef := \<lparr>user = '''', ai = ''''\<rparr>\<rparr>
   \<and> history (stopSession s) = history s
   \<and> history (run [Click o1, Click o2, Open] (s\<lparr>isActive := True\<rparr>)) = history s
   \<and> transcription (run [Click o1, Click o2, Open] (s\<lparr>isActive := True\<rparr>)) =
       \<lparr>user = '''', ai = ''''\<rparr>
   \<and> transcriptionRef (run [Click o1, Click o2, Open] (s\<lparr>isActive := True\<rparr>)) =
       \<lparr>user = '''', ai = ''''\<rparr>
   \<and> nextStartTime (run [Click o1, Click o2, Open] (s\<lparr>isActive := True\<rparr>)) = 0"
proof -
  have stop: "step (Click o1) (s\<lparr>isActive := True\<rparr>) = stopSession (s\<lparr>isActive := True\<rparr>)"
    by (simp add: startSession_def)
  have inactive: "\<not> isActive (stopSession (s\<lparr>isActive := True\<rparr>))"
    by (simp add: stopSession_fields)
  have run3: "run [Click o1, Click o2, Open] (s\<lparr>isActive := True\<rparr>) =
      onopen (startSession o2 (stopSession (s\<lparr>isActive := True\<rparr>)))"
    using stop by (simp add: run_def)
  show ?thesis
    using startSession_inactive_fields [OF inactive, of o2]
    by (simp add: run3 onopen_def) (simp add: stopSession_fields)
qed

lemma close_example_value:
  "close_example =
     \<lparr>isActive = True, isSyncing = False, transcription = \<lparr>user = ''hi'', ai = ''''\<rparr>,
      history = [],
      audioContexts = Some \<lparr>input_sampleRate = 16000, output_sampleRate = 24000\<rparr>,
      liveSession = Some 1, nextStartTime = 7,
      sources = [\<lparr>buffer_duration = 3, start_at = 4\<rparr>],
      transcriptionRef = \<lparr>user = ''hi'', ai = ''''\<rparr>, closeLog = [], stopLog = []\<rparr>"
  by (simp add: close_example_def run_def startSession_def onopen_def onmessage_def
      onmessage_parts_def onmessage_part_def onmessage_audio_part_def
      audio_part_before_decode_def audio_part_after_decode_def
      onmessage_inputTranscription_def app_init_def empty_transcript_def Let_def)

text \<open>
  Claim C2 says that a remote close tears the session down as a remote error does. The
  callback \<open>onclose\<close> only lowers the two flags: it leaves the session handle, the
  playing nodes, the cursor, the live display and the accumulators as they are, and calls
  neither \<open>close\<close> nor \<open>stop\<close>. On the session in progress \<open>close_example\<close> the
  callback \<open>onerror\<close> drops the handle, stops and forgets the node, puts the cursor to 0
  and empties the accumulators, and \<open>onclose\<close> does none of this.
\<close>

theorem onclose_skips_teardown:
  "liveSession (onclose s) = liveSession s
   \<and> closeLog (onclose s) = closeLog s
   \<and> stopLog (onclose s) = stopLog s
   \<and> sources (onclose s) = sources s
   \<and> nextStartTime (onclose s) = nextStartTime s
   \<and> transcription (onclose s) = transcription s
   \<and> transcriptionRef (onclose s) = transcriptionRef s
   \<and> liveSession (onclose close_example) = Some 1
   \<and> liveSession (onerror close_example) = None
   \<and> sources (onclose close_example) = [\<lparr>buffer_duration = 3, start_at = 4\<rparr>]
   \<and> sources (onerror close_example) = []
   \<and> stopLog (onclose close_example) = []
   \<and> stopLog (onerror close_example) = [\<lparr>buffer_duration = 3, start_at = 4\<rparr>]
   \<and> nextStartTime (onclose close_example) = 7
   \<and> nextStartTime (onerror close_example) = 0
   \<and> transcriptionRef (onclose close_example) = \<lparr>user = ''hi'', ai = ''''\<rparr>
   \<and> transcriptionRef (onerror close_example) = \<lparr>user = '''', ai = ''''\<rparr>
   \<and> transcription (onclose close_example) = \<lparr>user = ''hi'', ai = ''''\<rparr>
   \<and> transcription (onerror close_example) = \<lparr>user = '''', ai = ''''\<rparr>"
  by (simp add: onclose_def onerror_def stopSession_fields close_example_value)

section \<open>Playback scheduling: properties\<close>

subsection \<open>Interruption\<close>

text \<open>
  Claim C1, as the code has it. From every state the interruption branch stops every
  playing node, empties \<open>sources\<close> and puts the cursor to 0, not to the reading of the
  output clock. The clock comes back in with the next chunk: its node starts at the
  maximum of 0 and the clock reading of that moment.
\<close>

theorem onmessage_interrupted_resets_to_zero:
  "sources (onmessage_interrupted s) = []
   \<and> nextStartTime (onmessage_interrupted s) = 0
   \<and> stopLog (onmessage_interrupted s) = stopLog s @ sources s
   \<and> sources (onmessage_audio_part currentTime duration (onmessage_interrupted s)) =
       [\<lparr>buffer_duration = duration, start_at = max 0 currentTime\<rparr>]"
  by (simp add: onmessage_interrupted_def stop_sources_def Let_def onmessage_audio_part_def
      audio_part_before_decode_def audio_part_after_decode_def)

text \<open>
  One message brings two seconds of audio, read when the output clock shows 5, and the
  interruption signal. When the interruption branch runs the clock shows 5 or more, and
  the cursor is put to 0: the set is empty, but the cursor is not at the clock's time.
\<close>

theorem onmessage_interrupted_clock_counterexample:
  "\<not> (sources (onmessage
         \<lparr>parts = Some [\<lparr>clock = 5, inlineData = Some 2\<rparr>], inputTranscription = None,
          outputTranscription = None, turnComplete = False, interrupted = True\<rparr> app_init) = []
       \<and> 5 \<le> nextStartTime (onmessage
         \<lparr>parts = Some [\<lparr>clock = 5, inlineData = Some 2\<rparr>], inputTranscription = None,
          outputTranscription = None, turnComplete = False, interrupted = True\<rparr> app_init))"
  by (simp add: onmessage_def onmessage_parts_def onmessage_part_def onmessage_audio_part_def
      audio_part_before_decode_def audio_part_after_decode_def onmessage_interrupted_def
      stop_sources_def app_init_def Let_def)

subsection \<open>The cursor and the clock\<close>

lemma sched_run_Cons: "sched_run add (x # ops) s = sched_run add ops (sched_step add x s)"
  by (simp add: sched_run_def)

lemma sched_run_append:
  "sched_run add (xs @ ys) s = sched_run add ys (sched_run add xs s)"
  by (simp add: sched_run_def)

lemma decoded_fields:
  "audio_part_after_decode_with add d s =
     s\<lparr>nextStartTime := add (nextStartTime s) d,
       sources := sources s @ [\<lparr>buffer_duration = d, start_at = nextStartTime s\<rparr>]\<rparr>"
  by (simp add: audio_part_after_decode_with_def Let_def)

lemma audio_part_after_decode_exact:
  "audio_part_after_decode d s = audio_part_after_decode_with (+) d s"
  by (simp add: audio_part_after_decode_def audio_part_after_decode_with_def)

lemma onmessage_audio_part_sched_run:
  "onmessage_audio_part t d s = sched_run (+) [Clamp t, Decoded d] s"
  by (simp add: onmessage_audio_part_def audio_part_after_decode_exact sched_run_def)

lemma cursor_sched_step:
  assumes "\<And>x d. 0 \<le> d \<Longrightarrow> x \<le> add x d"
    and "unsplit x" and "t \<le> nextStartTime s"
  shows "t \<le> nextStartTime (sched_step add x s)"
proof (cases x)
  case (Clamp currentTime)
  with assms(3) show ?thesis
    by (simp add: audio_part_before_decode_def)
next
  case (Decoded d)
  with assms(2) have "0 \<le> d" by simp
  then have "nextStartTime s \<le> add (nextStartTime s) d"
    by (rule assms(1))
  with assms(3) Decoded show ?thesis
    by (simp add: decoded_fields)
next
  case Interrupt
  with assms(2) show ?thesis by simp
next
  case Stop
  with assms(2) show ?thesis by simp
qed

lemma cursor_sched_run:
  assumes "\<And>x d. 0 \<le> d \<Longrightarrow> x \<le> add x d"
  shows "list_all unsplit ops \<Longrightarrow> t \<le> nextStartTime s \<Longrightarrow>
    t \<le> nextStartTime (sched_run add ops s)"
proof (induction ops arbitrary: s)
  case Nil
  then show ?case by (simp add: sched_run_def)
next
  case (Cons x ops)
  from Cons.prems have "unsplit x" and rest: "list_all unsplit ops"
    by simp_all
  with assms Cons.prems(2) have "t \<le> nextStartTime (sched_step add x s)"
    by (intro cursor_sched_step)
  with rest show ?case
    by (simp add: sched_run_Cons Cons.IH)
qed

text \<open>
  Claim C7, as the code has it. A chunk is scheduled by its clamp, at a clock reading,
  and by its continuation, when the decode has ended. When every step between the two is
  a clamp or a continuation of a buffer of non-negative duration, so that no interruption
  and no \<open>stopSession\<close> splits the chunk, then right after the continuation the cursor
  is at least that clock reading, and the new node starts no earlier than it. The
  addition of the cursor may be any that does not decrease a value when a non-negative
  duration is added, as the addition of doubles does not. An interruption and
  \<open>stopSession\<close> put the cursor to 0, so after one of them, also one that splits a
  chunk, the cursor can lie below the clock: a chunk clamped at clock 5, interrupted and
  then continued with two seconds of audio leaves the cursor at 2.
\<close>

theorem cursor_at_least_clock_after_schedule:
  assumes "\<And>x d. 0 \<le> d \<Longrightarrow> x \<le> add x d"
    and "list_all unsplit mid" and "0 \<le> duration"
  shows "currentTime \<le>
      nextStartTime (sched_run add (Clamp currentTime # mid @ [Decoded duration]) s)
    \<and> currentTime \<le> start_at (last (sources
        (sched_run add (Clamp currentTime # mid @ [Decoded duration]) s)))
    \<and> buffer_duration (last (sources
        (sched_run add (Clamp currentTime # mid @ [Decoded duration]) s))) = duration
    \<and> nextStartTime (onmessage_interrupted s) = 0
    \<and> nextStartTime (stopSession s) = 0
    \<and> nextStartTime (sched_run (+) [Clamp 5, Interrupt, Decoded 2] app_init) = 2"
proof -
  define s1 where "s1 = sched_run add mid (audio_part_before_decode currentTime s)"
  have "currentTime \<le> nextStartTime (audio_part_before_decode currentTime s)"
    by (simp add: audio_part_before_decode_def)
  with assms(1,2) have clamped: "currentTime \<le> nextStartTime s1"
    unfolding s1_def by (intro cursor_sched_run)
  have "nextStartTime s1 \<le> add (nextStartTime s1) duration"
    using assms(3) by (rule assms(1))
  with clamped have advanced: "currentTime \<le> add (nextStartTime s1) duration"
    by simp
  have run: "sched_run add (Clamp currentTime # mid @ [Decoded duration]) s =
      audio_part_after_decode_with add duration s1"
    by (simp add: s1_def sched_run_Cons sched_run_append sched_run_def)
  have split: "nextStartTime (sched_run (+) [Clamp 5, Interrupt, Decoded 2] app_init) = 2"
    by (simp add: sched_run_def decoded_fields onmessage_interrupted_def)
  show ?thesis
    using clamped advanced split
    by (simp add: run decoded_fields onmessage_interrupted_def stopSession_fields)
qed

text \<open>
  From the initial state, with exact sums: a chunk is clamped at clock 5; before its
  decode ends another chunk is clamped at clock 6 and continued with one second of
  audio; then the first continues with two seconds. The cursor ends at 9.
\<close>

theorem cursor_at_least_clock_after_schedule_witness:
  "list_all unsplit [Clamp 6, Decoded 1] \<and> (0::real) \<le> 2
   \<and> (5::real) \<le> nextStartTime (sched_run (+) (Clamp 5 # [Clamp 6, Decoded 1] @ [Decoded 2]) app_init)
   \<and> nextStartTime (sched_run (+) (Clamp 5 # [Clamp 6, Decoded 1] @ [Decoded 2]) app_init) = 9"
proof -
  have infl: "\<And>x d :: real. 0 \<le> d \<Longrightarrow> x \<le> x + d"
    by simp
  have mid: "list_all unsplit [Clamp 6, Decoded 1]" and dur: "(0::real) \<le> 2"
    by simp_all
  have "nextStartTime (sched_run (+) (Clamp 5 # [Clamp 6, Decoded 1] @ [Decoded 2]) app_init) = 9"
    by (simp add: sched_run_def decoded_fields audio_part_before_decode_def app_init_def)
  then show ?thesis
    using mid dur
      cursor_at_least_clock_after_schedule [of "(+)", OF infl mid dur, of 5 app_init]
    by simp
qed

text \<open>
  A chunk is scheduled when the clock shows 5, then an interruption is handled. The clock
  shows 5 or more and the cursor is 0.
\<close>

theorem cursor_below_clock_counterexample:
  "\<not> 5 \<le> nextStartTime (onmessage_interrupted (onmessage_audio_part 5 2 app_init))"
  by (simp add: onmessage_interrupted_def)

subsection \<open>A decode that completes after an interruption\<close>

text \<open>
  Claim C10, as the code has it. The continuation after the \<^verbatim>\<open>await\<close> checks
  nothing. When an interruption is handled between the clamp of the cursor and the end of
  the decode, the continuation still creates a node for the chunk, starts it at the
  cursor as the interruption left it (0, not the value clamped before the interruption),
  adds it to \<open>sources\<close> and advances the cursor by the chunk's duration.
\<close>

theorem decode_after_interrupt_schedules:
  "sources (audio_part_after_decode duration
      (onmessage_interrupted (audio_part_before_decode currentTime s))) =
     [\<lparr>buffer_duration = duration, start_at = 0\<rparr>]
   \<and> nextStartTime (audio_part_after_decode duration
      (onmessage_interrupted (audio_part_before_decode currentTime s))) = duration"
  by (simp add: audio_part_after_decode_def onmessage_interrupted_def Let_def)

text \<open>
  Three seconds of audio are playing (scheduled at clock 4). A second chunk arrives at
  clock 5 and its decode begins; the interruption is handled; the decode ends with a
  buffer of two seconds. The continuation is not discarded: \<open>sources\<close> and the cursor
  are no longer what the interruption left.
\<close>

theorem stale_decode_counterexample:
  "sources (audio_part_after_decode 2 (onmessage_interrupted
      (audio_part_before_decode 5 (onmessage_audio_part 4 3 app_init)))) \<noteq>
   sources (onmessage_interrupted
      (audio_part_before_decode 5 (onmessage_audio_part 4 3 app_init)))
   \<and> nextStartTime (audio_part_after_decode 2 (onmessage_interrupted
      (audio_part_before_decode 5 (onmessage_audio_part 4 3 app_init)))) \<noteq>
   nextStartTime (onmessage_interrupted
      (audio_part_before_decode 5 (onmessage_audio_part 4 3 app_init)))"
  by (simp add: audio_part_after_decode_def onmessage_interrupted_def Let_def)

subsection \<open>Consecutive chunks\<close>

lemma onmessage_part_audio:
  "onmessage_part \<lparr>clock = t, inlineData = Some d\<rparr> s =
     s\<lparr>nextStartTime := max (nextStartTime s) t + d,
       sources := sources s @ [\<lparr>buffer_duration = d, start_at = max (nextStartTime s) t\<rparr>]\<rparr>"
  by (simp add: onmessage_part_def onmessage_audio_part_def audio_part_before_decode_def
      audio_part_after_decode_def Let_def)

lemma chunk_ops_Cons: "chunk_ops ((t, d) # cs) = Clamp t # Decoded d # chunk_ops cs"
  by (simp add: chunk_ops_def)

text \<open>The loop of the message callback is the run in which no chunk is split.\<close>

lemma onmessage_parts_sched_run:
  "onmessage_parts (audio_parts cs) s = sched_run (+) (chunk_ops cs) s"
proof (induction cs arbitrary: s)
  case Nil
  then show ?case
    by (simp add: onmessage_parts_def audio_parts_def chunk_ops_def sched_run_def)
next
  case (Cons c cs)
  obtain t d where c: "c = (t, d)" by (cases c)
  have "onmessage_parts (audio_parts (c # cs)) s =
      onmessage_parts (audio_parts cs) (onmessage_part \<lparr>clock = t, inlineData = Some d\<rparr> s)"
    by (simp add: onmessage_parts_def audio_parts_def c)
  then show ?case
    by (simp add: Cons.IH c chunk_ops_Cons sched_run_Cons onmessage_part_audio
        decoded_fields audio_part_before_decode_def)
qed

lemma sources_chunk_ops:
  "sources (sched_run add (chunk_ops cs) s) =
     sources s @ chain_with add (nextStartTime s) cs"
proof (induction cs arbitrary: s)
  case Nil
  then show ?case by (simp add: chunk_ops_def sched_run_def)
next
  case (Cons c cs)
  obtain t d where c: "c = (t, d)" by (cases c)
  show ?case
    by (simp add: c chunk_ops_Cons sched_run_Cons Cons.IH decoded_fields
        audio_part_before_decode_def)
qed

lemma scheduled_chain: "scheduled_with add cs s = chain_with add (nextStartTime s) cs"
  by (simp add: scheduled_with_def sources_chunk_ops)

lemma length_chain: "length (chain_with add c cs) = length cs"
  by (induction add c cs rule: chain_with.induct) simp_all

lemma duration_chain:
  "i < length cs \<Longrightarrow> buffer_duration (chain_with add c cs ! i) = snd (cs ! i)"
proof (induction add c cs arbitrary: i rule: chain_with.induct)
  case (1 add c)
  then show ?case by simp
next
  case (2 add c t d cs)
  then show ?case by (cases i) simp_all
qed

lemma start_chain_Suc:
  "Suc i < length cs \<Longrightarrow>
   start_at (chain_with add c cs ! Suc i) =
     max (add (start_at (chain_with add c cs ! i)) (snd (cs ! i))) (fst (cs ! Suc i))"
proof (induction add c cs arbitrary: i rule: chain_with.induct)
  case (1 add c)
  then show ?case by simp
next
  case (2 add c t d cs)
  show ?case
  proof (cases i)
    case 0
    with "2.prems" obtain t' d' cs' where "cs = (t', d') # cs'"
      by (cases cs) auto
    with 0 show ?thesis by simp
  next
    case (Suc j)
    with "2.prems" have "Suc j < length cs" by simp
    from "2.IH" [OF this] Suc show ?thesis by simp
  qed
qed

lemma clamps_run:
  "sched_run add (map Clamp ts) s = s\<lparr>nextStartTime := fold max ts (nextStartTime s)\<rparr>"
proof (induction ts arbitrary: s)
  case Nil
  then show ?case by (simp add: sched_run_def)
next
  case (Cons t ts)
  then show ?case
    by (simp add: sched_run_Cons audio_part_before_decode_def max.commute)
qed

lemma fold_max_ge: "c \<le> fold max ts (c::real)"
proof (induction ts arbitrary: c)
  case Nil
  then show ?case by simp
next
  case (Cons t ts)
  have "c \<le> max t c" by simp
  also have "max t c \<le> fold max ts (max t c)" by (rule Cons.IH)
  finally show ?case by simp
qed

lemma fold_max_eq_iff: "fold max ts c = c \<longleftrightarrow> list_all (\<lambda>t. t \<le> c) ts" for c :: real
proof (induction ts arbitrary: c)
  case Nil
  then show ?case by simp
next
  case (Cons t ts)
  show ?case
  proof (cases "t \<le> c")
    case True
    then have "max t c = c" by simp
    with Cons.IH [of c] True show ?thesis by simp
  next
    case False
    then have "c < max t c" by simp
    also have "max t c \<le> fold max ts (max t c)" by (rule fold_max_ge)
    finally have "fold max ts (max t c) \<noteq> c" by simp
    with False show ?thesis by simp
  qed
qed

text \<open>
  Claim C5, as the code has it. The cursor advances by the addition of doubles, written
  \<open>add\<close>; everything below holds for every addition. Chunks \<open>cs\<close> are handled one
  after the other from a state \<open>s\<close>, with no interruption: chunk \<open>i\<close> has the clock
  reading \<open>fst (cs ! i)\<close> and the duration \<open>snd (cs ! i)\<close>. One node is created per
  chunk, in call order. The first starts at the cursor clamped to the clock, also when it
  is the only one. Every later one starts at the cursor that the chunk before it left
  (its start plus its duration, as the code adds them) or at its own clock reading,
  whichever is later: it never starts before that cursor, and it starts exactly at it
  when and only when its clock reading has not passed it. When handlers overlap, so that
  clamps \<open>ts\<close> of other chunks run between two continuations, the later node starts
  at the cursor the earlier one left, clamped to every reading of \<open>ts\<close>.
\<close>

theorem scheduled_start_times:
  "length (scheduled_with add cs s) = length cs
   \<and> scheduled_with add ((t, d) # cs) s ! 0 =
        \<lparr>buffer_duration = d, start_at = max (nextStartTime s) t\<rparr>
   \<and> (i < length cs \<longrightarrow> buffer_duration (scheduled_with add cs s ! i) = snd (cs ! i))
   \<and> (Suc i < length cs \<longrightarrow>
        start_at (scheduled_with add cs s ! Suc i) =
          max (add (start_at (scheduled_with add cs s ! i)) (snd (cs ! i))) (fst (cs ! Suc i))
        \<and> add (start_at (scheduled_with add cs s ! i)) (snd (cs ! i)) \<le>
            start_at (scheduled_with add cs s ! Suc i)
        \<and> (start_at (scheduled_with add cs s ! Suc i) =
              add (start_at (scheduled_with add cs s ! i)) (snd (cs ! i))
            \<longleftrightarrow> fst (cs ! Suc i) \<le> add (start_at (scheduled_with add cs s ! i)) (snd (cs ! i))))
   \<and> sources (sched_run add (Decoded d # map Clamp ts @ [Decoded d']) s) =
        sources s @ [\<lparr>buffer_duration = d, start_at = nextStartTime s\<rparr>,
                     \<lparr>buffer_duration = d',
                      start_at = fold max ts (add (nextStartTime s) d)\<rparr>]
   \<and> add (nextStartTime s) d \<le> fold max ts (add (nextStartTime s) d)
   \<and> (fold max ts (add (nextStartTime s) d) = add (nextStartTime s) d
        \<longleftrightarrow> list_all (\<lambda>t'. t' \<le> add (nextStartTime s) d) ts)"
proof -
  have first: "scheduled_with add ((t, d) # cs) s ! 0 =
      \<lparr>buffer_duration = d, start_at = max (nextStartTime s) t\<rparr>"
    by (simp add: scheduled_chain)
  have dur: "i < length cs \<longrightarrow> buffer_duration (scheduled_with add cs s ! i) = snd (cs ! i)"
    by (simp add: scheduled_chain duration_chain)
  have step: "Suc i < length cs \<longrightarrow>
      start_at (scheduled_with add cs s ! Suc i) =
        max (add (start_at (scheduled_with add cs s ! i)) (snd (cs ! i))) (fst (cs ! Suc i))"
    by (simp add: scheduled_chain start_chain_Suc)
  have overlap: "sources (sched_run add (Decoded d # map Clamp ts @ [Decoded d']) s) =
      sources s @ [\<lparr>buffer_duration = d, start_at = nextStartTime s\<rparr>,
                   \<lparr>buffer_duration = d',
                    start_at = fold max ts (add (nextStartTime s) d)\<rparr>]"
    by (simp add: sched_run_Cons sched_run_append clamps_run decoded_fields)
       (simp add: sched_run_def decoded_fields)
  show ?thesis
    using first dur step overlap fold_max_ge [of "add (nextStartTime s) d" ts]
      fold_max_eq_iff [of ts "add (nextStartTime s) d"]
    by (auto simp: scheduled_chain length_chain)
qed

text \<open>
  With exact sums, from the initial state. Three chunks: one second at clock 0, one
  second at clock 5, two seconds at clock 5.5; they start at 0, 5 and 6, with a gap
  before the second and none before the third. A chunk of two seconds alone, at clock 5,
  starts at 5.
\<close>

theorem scheduled_start_times_witness:
  "Suc 0 < length [(0, 1), (5, 1), (11 / 2, 2 :: real)]
   \<and> map start_at (scheduled_with (+) [(0, 1), (5, 1), (11 / 2, 2)] app_init) = [0, 5, 6]
   \<and> start_at (scheduled_with (+) [(0, 1), (5, 1), (11 / 2, 2)] app_init ! Suc 0) =
       max (0 + 1) 5
   \<and> scheduled_with (+) [(5, 2)] app_init = [\<lparr>buffer_duration = 2, start_at = 5\<rparr>]"
proof -
  have nodes: "scheduled_with (+) [(0, 1), (5, 1), (11 / 2, 2)] app_init =
      [\<lparr>buffer_duration = 1, start_at = 0\<rparr>, \<lparr>buffer_duration = 1, start_at = 5\<rparr>,
       \<lparr>buffer_duration = 2, start_at = 6\<rparr>]"
    by (simp add: scheduled_with_def chunk_ops_def sched_run_def decoded_fields
        audio_part_before_decode_def app_init_def)
  have single: "scheduled_with (+) [(5, 2)] app_init = [\<lparr>buffer_duration = 2, start_at = 5\<rparr>]"
    by (simp add: scheduled_with_def chunk_ops_def sched_run_def decoded_fields
        audio_part_before_decode_def app_init_def)
  show ?thesis
    using scheduled_start_times [where add = "(+)" and cs = "[(0, 1), (5, 1), (11 / 2, 2)]"
        and s = app_init and i = 0 and t = 5 and d = 2 and ts = "[]" and d' = 1]
    by (simp add: nodes single)
qed

text \<open>
  One second of audio is scheduled at clock 0 and ends at 1. The next chunk arrives when
  the clock shows 5: it starts at 5, not at 1. All sums are exact.
\<close>

theorem scheduled_gap_counterexample:
  "start_at (scheduled [(0, 1), (5, 1)] app_init ! 1) \<noteq>
   start_at (scheduled [(0, 1), (5, 1)] app_init ! 0) + 1"
  by (simp add: scheduled_def audio_parts_def onmessage_parts_def onmessage_part_audio
      app_init_def)

section \<open>The live display: properties\<close>

lemma display_inv_fragment: "display_inv s \<Longrightarrow> display_inv (onmessage_fragment f s)"
  by (cases f)
     (auto simp: display_inv_def onmessage_inputTranscription_def
        onmessage_outputTranscription_def Let_def suffix_def)

lemma display_inv_fragments: "display_inv s \<Longrightarrow> display_inv (onmessage_fragments fs s)"
  unfolding onmessage_fragments_def
  by (induction fs arbitrary: s) (simp_all add: display_inv_fragment)

lemma input_fragments_equal:
  "transcription s = transcriptionRef s \<Longrightarrow>
   transcription (onmessage_fragments (map InputFragment ts) s) =
   transcriptionRef (onmessage_fragments (map InputFragment ts) s)"
  unfolding onmessage_fragments_def
  by (induction ts arbitrary: s) (simp_all add: onmessage_inputTranscription_def Let_def)

lemma input_fragments_user:
  "user (transcription (onmessage_fragments (map InputFragment ts) s)) =
   user (transcription s) @ concat ts"
  unfolding onmessage_fragments_def
  by (induction ts arbitrary: s) (simp_all add: onmessage_inputTranscription_def Let_def)

text \<open>
  Claim C9, as the code has it. The fragments start from a state whose live display
  equals the accumulators. After any sequence of fragments the displayed model text is
  the model accumulator, and the displayed user text is an end piece of the user
  accumulator: all of it while only user fragments have arrived, and after a model
  fragment only the user fragments that arrived since. A model fragment leaves the user
  accumulator as it is and sets the displayed user text to the empty string.
\<close>

theorem live_display_after_fragments:
  assumes "transcription s = transcriptionRef s"
  shows "ai (transcription (onmessage_fragments fs s)) =
           ai (transcriptionRef (onmessage_fragments fs s))
    \<and> suffix (user (transcription (onmessage_fragments fs s)))
         (user (transcriptionRef (onmessage_fragments fs s)))
    \<and> transcription (onmessage_fragments (map InputFragment ts) s) =
         transcriptionRef (onmessage_fragments (map InputFragment ts) s)
    \<and> user (transcription (onmessage_fragments
         (fs @ OutputFragment txt # map InputFragment ts) s)) = concat ts
    \<and> user (transcription (onmessage_outputTranscription txt s)) = ''''
    \<and> user (transcriptionRef (onmessage_outputTranscription txt s)) = user (transcriptionRef s)"
proof -
  have "display_inv s"
    using assms by (simp add: display_inv_def)
  then have "display_inv (onmessage_fragments fs s)"
    by (rule display_inv_fragments)
  moreover have "user (transcription (onmessage_fragments
         (fs @ OutputFragment txt # map InputFragment ts) s)) = concat ts"
  proof -
    have "onmessage_fragments (fs @ OutputFragment txt # map InputFragment ts) s =
        onmessage_fragments (map InputFragment ts)
          (onmessage_outputTranscription txt (onmessage_fragments fs s))"
      by (simp add: onmessage_fragments_def)
    then show ?thesis
      by (simp add: input_fragments_user) (simp add: onmessage_outputTranscription_def Let_def)
  qed
  ultimately show ?thesis
    using input_fragments_equal [OF assms, of ts]
    by (simp add: display_inv_def) (simp add: onmessage_outputTranscription_def Let_def)
qed

text \<open>
  From the initial state the user says \<open>hi\<close>, the model answers \<open>yo\<close>, the user adds
  \<open>x\<close>: the accumulators hold \<open>hix\<close> and \<open>yo\<close>, the display shows \<open>x\<close> and \<open>yo\<close>.
\<close>

theorem live_display_after_fragments_witness:
  "transcription app_init = transcriptionRef app_init
   \<and> transcription (onmessage_fragments
        [InputFragment ''hi'', OutputFragment ''yo'', InputFragment ''x''] app_init) =
      \<lparr>user = ''x'', ai = ''yo''\<rparr>
   \<and> transcriptionRef (onmessage_fragments
        [InputFragment ''hi'', OutputFragment ''yo'', InputFragment ''x''] app_init) =
      \<lparr>user = ''hix'', ai = ''yo''\<rparr>"
proof -
  have h: "transcription app_init = transcriptionRef app_init"
    by (simp add: app_init_def)
  show ?thesis
    using h live_display_after_fragments [OF h,
        of "[InputFragment ''hi'', OutputFragment ''yo'', InputFragment ''x'']"]
    by (simp add: onmessage_fragments_def onmessage_inputTranscription_def
        onmessage_outputTranscription_def app_init_def empty_transcript_def Let_def)
qed

text \<open>
  From the initial state the user says \<open>hi\<close> and the model answers \<open>yo\<close>: the user
  accumulator holds \<open>hi\<close> and the displayed user text is empty.
\<close>

theorem live_display_user_counterexample:
  "user (transcription (onmessage_fragments
      [InputFragment ''hi'', OutputFragment ''yo''] app_init)) \<noteq>
   user (transcriptionRef (onmessage_fragments
      [InputFragment ''hi'', OutputFragment ''yo''] app_init))"
  by (simp add: onmessage_fragments_def onmessage_inputTranscription_def
      onmessage_outputTranscription_def app_init_def empty_transcript_def Let_def)

end
